theory Spec2Isabelle
  imports Main
begin

section \<open>Data model (main.py, the three mapped classes)\<close>

text \<open>
  Each mapped class of \<^verbatim>\<open>main.py\<close> is a record with one field per column. The three
  classes share column names (\<^verbatim>\<open>id\<close>, \<^verbatim>\<open>name\<close>, \<^verbatim>\<open>experience\<close>), so the fields carry the
  prefix of their class: \<^verbatim>\<open>User.email\<close> is \<open>u_email\<close>, \<^verbatim>\<open>Mentor.expertise\<close> is
  \<open>m_expertise\<close>, \<^verbatim>\<open>ServiceProvider.service_type\<close> is \<open>sp_service_type\<close>.
  Python's \<^verbatim>\<open>int\<close> is \<open>int\<close>, \<^verbatim>\<open>str\<close> is \<open>string\<close> (a list of bytes).
\<close>

record user =
  u_id :: int
  u_name :: string
  u_email :: string
  u_phone :: string
  u_preferred_language :: string
  u_role :: string
  u_password_hash :: string

record mentor =
  m_id :: int
  m_name :: string
  m_age :: int
  m_location :: string
  m_expertise :: string
  m_experience :: int

record service_provider =
  sp_id :: int
  sp_name :: string
  sp_service_type :: string
  sp_experience :: int
  sp_pricing_model :: string
  sp_availability :: string

section \<open>The store\<close>

text \<open>
  A table is the list of its rows in primary-key order together with the auto-increment
  counter of its \<^verbatim>\<open>id\<close> column. The store holds the three tables of
  \<^verbatim>\<open>Base.metadata\<close>, named as their \<^verbatim>\<open>__tablename__\<close>. What the storage engine adds
  (column widths, collations, lost connections) is outside the model: every statement
  reaches the store and is executed on the rows as they are.
\<close>

record 'r table =
  rows :: "'r list"
  next_id :: int

record store =
  users :: "user table"
  mentors :: "mentor table"
  service_providers :: "service_provider table"

definition empty_table :: "'r table" where
  "empty_table = \<lparr>rows = [], next_id = 1\<rparr>"

definition empty_store :: store where
  "empty_store = \<lparr>users = empty_table, mentors = empty_table, service_providers = empty_table\<rparr>"

text \<open>
  Errors are values. \<^verbatim>\<open>HTTPException(status_code, detail)\<close> is raised by the handlers;
  \<open>DBAPIError\<close> stands for a statement the store rejects; \<open>ValueError\<close> is what bcrypt
  raises (no handler catches it, the response is a 500); \<open>RequestValidationError\<close> is
  FastAPI's answer (422) to a request whose parameters do not validate, given before any
  handler runs.
\<close>

datatype error = HTTPException int string | DBAPIError | ValueError | RequestValidationError

subsection \<open>The query interface the handlers use\<close>

text \<open>\<^verbatim>\<open>db.query(T)\<close>: all rows of the table, in primary-key order.\<close>

definition query :: "'r table \<Rightarrow> 'r list" where
  "query t = rows t"

text \<open>\<^verbatim>\<open>.filter(cond)\<close> keeps the rows that satisfy the condition, in order.\<close>

definition filter_by :: "('r \<Rightarrow> bool) \<Rightarrow> 'r list \<Rightarrow> 'r list" where
  "filter_by cond q = filter cond q"

text \<open>\<^verbatim>\<open>.first()\<close>: the first row of the result, or \<^verbatim>\<open>None\<close>.\<close>

definition first :: "'r list \<Rightarrow> 'r option" where
  "first q = (case q of [] \<Rightarrow> None | r # _ \<Rightarrow> Some r)"

text \<open>
  \<^verbatim>\<open>.offset(skip).limit(limit).all()\<close>. A negative offset or row count is not a valid
  statement for the store and is rejected; otherwise \<open>skip\<close> rows are dropped and at most
  \<open>limit\<close> rows are taken.
\<close>

definition offset_limit_all :: "int \<Rightarrow> int \<Rightarrow> 'r list \<Rightarrow> error + 'r list" where
  "offset_limit_all skip limit q =
     (if skip < 0 \<or> limit < 0 then Inl DBAPIError
      else Inr (take (nat limit) (drop (nat skip) q)))"

text \<open>
  \<^verbatim>\<open>db.add(obj); db.commit(); db.refresh(obj)\<close>: the row is appended with the id the
  auto-increment counter gives it, the counter moves on, and the refreshed object is the
  stored row. \<open>mk\<close> builds the row from the id.
\<close>

definition add_commit_refresh :: "(int \<Rightarrow> 'r) \<Rightarrow> 'r table \<Rightarrow> 'r \<times> 'r table" where
  "add_commit_refresh mk t =
     (let r = mk (next_id t)
      in (r, t\<lparr>rows := rows t @ [r], next_id := next_id t + 1\<rparr>))"

section \<open>Responses\<close>

text \<open>
  The registration handlers return a Python dict literal: a list of key and value pairs in
  the order written. The read handlers return the mapped objects themselves.
\<close>

datatype jvalue = JInt int | JStr string

type_synonym pydict = "(string \<times> jvalue) list"

datatype response =
    RDict pydict
  | RUsers "user list"
  | RMentors "mentor list"
  | RProviders "service_provider list"
  | RProvider service_provider

section \<open>User handlers\<close>

text \<open>
  \<^verbatim>\<open>hash_password\<close> calls \<^verbatim>\<open>bcrypt.hashpw(password, bcrypt.gensalt())\<close>. Of the
  bcrypt library the model keeps its interface:
  \<^item> \<^verbatim>\<open>gensalt()\<close> returns the prefix \<^verbatim>\<open>$2b$12$\<close> followed by the encoding of 16 random
    bytes; the random part is the input \<open>rnd\<close>;
  \<^item> \<^verbatim>\<open>hashpw(password, salt)\<close> raises \<^verbatim>\<open>ValueError\<close> for a password of more than 72
    bytes; otherwise it returns the salt followed by the digest it computes from the
    password and the salt. The digest function itself is the parameter \<open>digest\<close>.
  Encoding to and decoding from UTF-8 is the identity on byte strings.
\<close>

definition gensalt :: "string \<Rightarrow> string" where
  "gensalt rnd = ''$2b$12$'' @ rnd"

definition hashpw :: "(string \<Rightarrow> string \<Rightarrow> string) \<Rightarrow> string \<Rightarrow> string \<Rightarrow> error + string" where
  "hashpw digest password salt =
     (if 72 < length password then Inl ValueError else Inr (salt @ digest password salt))"

definition hash_password :: "(string \<Rightarrow> string \<Rightarrow> string) \<Rightarrow> string \<Rightarrow> string \<Rightarrow> error + string" where
  "hash_password digest rnd password = hashpw digest password (gensalt rnd)"

definition register_user ::
  "(string \<Rightarrow> string \<Rightarrow> string) \<Rightarrow> string \<Rightarrow>
   string \<Rightarrow> string \<Rightarrow> string \<Rightarrow> string \<Rightarrow> string \<Rightarrow> string \<Rightarrow>
   store \<Rightarrow> (error + response) \<times> store" where
  "register_user digest rnd name email phone preferred_language role password db =
     (case first (filter_by (\<lambda>u. u_email u = email) (query (users db))) of
        Some _ \<Rightarrow> (Inl (HTTPException 400 ''Email already registered''), db)
      | None \<Rightarrow>
          (case hash_password digest rnd password of
             Inl e \<Rightarrow> (Inl e, db)
           | Inr hashed_password \<Rightarrow>
               (let (db_user, t) = add_commit_refresh
                       (\<lambda>i. \<lparr>u_id = i, u_name = name, u_email = email, u_phone = phone,
                             u_preferred_language = preferred_language, u_role = role,
                             u_password_hash = hashed_password\<rparr>) (users db)
                in (Inr (RDict
                      [(''id'', JInt (u_id db_user)),
                       (''name'', JStr (u_name db_user)),
                       (''email'', JStr (u_email db_user)),
                       (''phone'', JStr (u_phone db_user)),
                       (''preferred_language'', JStr (u_preferred_language db_user)),
                       (''role'', JStr (u_role db_user))]),
                    db\<lparr>users := t\<rparr>))))"

text \<open>
  \<^verbatim>\<open>fetch_users(skip = Form(0), limit = Form(10))\<close>: a parameter the request leaves
  out is \<open>None\<close> and takes its default.
\<close>

definition fetch_users :: "int option \<Rightarrow> int option \<Rightarrow> store \<Rightarrow> (error + response) \<times> store" where
  "fetch_users skip limit db =
     (case offset_limit_all (case skip of None \<Rightarrow> 0 | Some s \<Rightarrow> s)
                            (case limit of None \<Rightarrow> 10 | Some l \<Rightarrow> l)
                            (query (users db)) of
        Inl e \<Rightarrow> (Inl e, db)
      | Inr us \<Rightarrow> (Inr (RUsers us), db))"

section \<open>Pattern matching: \<^verbatim>\<open>ilike\<close>\<close>

text \<open>
  \<^verbatim>\<open>column.ilike(pattern)\<close> is the store's \<^verbatim>\<open>lower(column) LIKE lower(pattern)\<close>.
  \<open>lower_char\<close> folds the letters A to Z; every other byte is left alone.
\<close>

definition lower_char :: "char \<Rightarrow> char" where
  "lower_char c =
     (let n = (of_char c :: nat) in if 65 \<le> n \<and> n \<le> 90 then char_of (n + 32) else c)"

definition lower :: "string \<Rightarrow> string" where
  "lower s = map lower_char s"

text \<open>
  \<^verbatim>\<open>LIKE\<close>, as the MySQL store of \<^verbatim>\<open>DATABASE_URL\<close> reads a pattern: \<^verbatim>\<open>%\<close> stands
  for any run of characters (also none), \<^verbatim>\<open>_\<close> for exactly one character, and the
  backslash, the default escape character, takes the character after it literally (a
  backslash that ends the pattern stands for itself). Every other character stands for
  itself. The whole subject has to be consumed.
\<close>

fun like :: "string \<Rightarrow> string \<Rightarrow> bool" where
  "like [] s = (s = [])"
| "like (p # ps) s =
     (if p = CHR ''%'' then
        (like ps s \<or> (case s of [] \<Rightarrow> False | c # t \<Rightarrow> like (p # ps) t))
      else if p = CHR ''_'' then
        (case s of [] \<Rightarrow> False | c # t \<Rightarrow> like ps t)
      else if p = CHR 0x5C then
        (case ps of
           [] \<Rightarrow> s = [p]
         | q # qs \<Rightarrow> (case s of [] \<Rightarrow> False | c # t \<Rightarrow> c = q \<and> like qs t))
      else (case s of [] \<Rightarrow> False | c # t \<Rightarrow> c = p \<and> like ps t))"

definition ilike :: "string \<Rightarrow> string \<Rightarrow> bool" where
  "ilike column pattern = like (lower pattern) (lower column)"

section \<open>Mentor handlers\<close>

definition register_mentor ::
  "string \<Rightarrow> int \<Rightarrow> string \<Rightarrow> string \<Rightarrow> int \<Rightarrow> store \<Rightarrow> (error + response) \<times> store" where
  "register_mentor name age location expertise experience db =
     (let (db_mentor, t) = add_commit_refresh
             (\<lambda>i. \<lparr>m_id = i, m_name = name, m_age = age, m_location = location,
                   m_expertise = expertise, m_experience = experience\<rparr>) (mentors db)
      in (Inr (RDict
            [(''id'', JInt (m_id db_mentor)),
             (''name'', JStr (m_name db_mentor)),
             (''age'', JInt (m_age db_mentor)),
             (''location'', JStr (m_location db_mentor)),
             (''expertise'', JStr (m_expertise db_mentor)),
             (''experience'', JInt (m_experience db_mentor))]),
          db\<lparr>mentors := t\<rparr>))"

definition fetch_mentors :: "int option \<Rightarrow> int option \<Rightarrow> store \<Rightarrow> (error + response) \<times> store" where
  "fetch_mentors skip limit db =
     (case offset_limit_all (case skip of None \<Rightarrow> 0 | Some s \<Rightarrow> s)
                            (case limit of None \<Rightarrow> 10 | Some l \<Rightarrow> l)
                            (query (mentors db)) of
        Inl e \<Rightarrow> (Inl e, db)
      | Inr ms \<Rightarrow> (Inr (RMentors ms), db))"

text \<open>The pattern is the f-string \<^verbatim>\<open>f"%{expertise}%"\<close>: the query between two \<^verbatim>\<open>%\<close>.\<close>

definition search_mentors_by_expertise :: "string \<Rightarrow> store \<Rightarrow> (error + response) \<times> store" where
  "search_mentors_by_expertise expertise db =
     (let mentors_found =
            filter_by (\<lambda>m. ilike (m_expertise m) (''%'' @ expertise @ ''%'')) (query (mentors db))
      in if mentors_found = []
         then (Inl (HTTPException 404 ''No mentors found with the given expertise''), db)
         else (Inr (RMentors mentors_found), db))"

section \<open>Service provider handlers\<close>

definition register_service_provider ::
  "string \<Rightarrow> string \<Rightarrow> int \<Rightarrow> string \<Rightarrow> string \<Rightarrow> store \<Rightarrow> (error + response) \<times> store" where
  "register_service_provider name service_type experience pricing_model availability db =
     (let (db_provider, t) = add_commit_refresh
             (\<lambda>i. \<lparr>sp_id = i, sp_name = name, sp_service_type = service_type,
                   sp_experience = experience, sp_pricing_model = pricing_model,
                   sp_availability = availability\<rparr>) (service_providers db)
      in (Inr (RDict
            [(''id'', JInt (sp_id db_provider)),
             (''name'', JStr (sp_name db_provider)),
             (''service_type'', JStr (sp_service_type db_provider)),
             (''experience'', JInt (sp_experience db_provider)),
             (''pricing_model'', JStr (sp_pricing_model db_provider)),
             (''availability'', JStr (sp_availability db_provider))]),
          db\<lparr>service_providers := t\<rparr>))"

definition fetch_service_providers ::
  "int option \<Rightarrow> int option \<Rightarrow> store \<Rightarrow> (error + response) \<times> store" where
  "fetch_service_providers skip limit db =
     (case offset_limit_all (case skip of None \<Rightarrow> 0 | Some s \<Rightarrow> s)
                            (case limit of None \<Rightarrow> 10 | Some l \<Rightarrow> l)
                            (query (service_providers db)) of
        Inl e \<Rightarrow> (Inl e, db)
      | Inr ps \<Rightarrow> (Inr (RProviders ps), db))"

definition fetch_service_provider :: "int \<Rightarrow> store \<Rightarrow> (error + response) \<times> store" where
  "fetch_service_provider provider_id db =
     (case first (filter_by (\<lambda>p. sp_id p = provider_id) (query (service_providers db))) of
        None \<Rightarrow> (Inl (HTTPException 404 ''Service provider not found''), db)
      | Some provider \<Rightarrow> (Inr (RProvider provider), db))"

text \<open>
  The handler of \<^verbatim>\<open>POST /service-providers/search/\<close>. The source gives it the name
  \<^verbatim>\<open>search_mentors_by_expertise\<close> a second time (both routes stay registered); here it
  is told apart by the suffix.
\<close>

definition search_mentors_by_expertise_sp :: "string \<Rightarrow> store \<Rightarrow> (error + response) \<times> store" where
  "search_mentors_by_expertise_sp service_type db =
     (let provider =
            filter_by (\<lambda>p. ilike (sp_service_type p) (''%'' @ service_type @ ''%''))
                      (query (service_providers db))
      in if provider = []
         then (Inl (HTTPException 404 ''No mentors found with the given expertise''), db)
         else (Inr (RProviders provider), db))"

section \<open>The application: request validation, then one handler\<close>

text \<open>
  A request names its route and carries the values of its parameters. Integer parameters
  are held as integers (a value that does not parse is answered with 422 and is not a
  request here); \<open>None\<close> for \<^verbatim>\<open>skip\<close> or \<^verbatim>\<open>limit\<close> is a parameter left out.
\<close>

datatype request =
    RegisterUser string string string string string string
  | FetchUsers "int option" "int option"
  | RegisterMentor string int string string int
  | FetchMentors "int option" "int option"
  | SearchMentors string
  | RegisterServiceProvider string string int string string
  | FetchServiceProviders "int option" "int option"
  | FetchServiceProvider int
  | SearchServiceProviders string

text \<open>
  A parameter declared \<^verbatim>\<open>Form(...)\<close> is required, and FastAPI takes an empty form value
  for a missing one: the request is answered with 422 and the handler does not run.
\<close>

definition form_required :: "string list \<Rightarrow> bool" where
  "form_required values = list_all (\<lambda>v. v \<noteq> []) values"

text \<open>
  \<open>app\<close> is the application as a client meets it. The email of a registration is declared
  \<^verbatim>\<open>EmailStr\<close>: pydantic rejects what is not an address (422) and hands the handler the
  normalised address. The validator is a library; it is the parameter \<open>email_str\<close>, \<open>None\<close>
  for a rejected value.
\<close>

fun app ::
  "(string \<Rightarrow> string option) \<Rightarrow> (string \<Rightarrow> string \<Rightarrow> string) \<Rightarrow> string \<Rightarrow>
   request \<Rightarrow> store \<Rightarrow> (error + response) \<times> store" where
  "app email_str digest rnd (RegisterUser name email phone preferred_language role password) db =
     (if form_required [name, email, phone, preferred_language, role, password]
      then (case email_str email of
              None \<Rightarrow> (Inl RequestValidationError, db)
            | Some valid_email \<Rightarrow>
                register_user digest rnd name valid_email phone preferred_language role
                  password db)
      else (Inl RequestValidationError, db))"
| "app email_str digest rnd (FetchUsers skip limit) db = fetch_users skip limit db"
| "app email_str digest rnd (RegisterMentor name age location expertise experience) db =
     (if form_required [name, location, expertise]
      then register_mentor name age location expertise experience db
      else (Inl RequestValidationError, db))"
| "app email_str digest rnd (FetchMentors skip limit) db = fetch_mentors skip limit db"
| "app email_str digest rnd (SearchMentors expertise) db =
     (if form_required [expertise]
      then search_mentors_by_expertise expertise db
      else (Inl RequestValidationError, db))"
| "app email_str digest rnd
       (RegisterServiceProvider name service_type experience pricing_model availability) db =
     (if form_required [name, service_type, pricing_model, availability]
      then register_service_provider name service_type experience pricing_model availability db
      else (Inl RequestValidationError, db))"
| "app email_str digest rnd (FetchServiceProviders skip limit) db =
     fetch_service_providers skip limit db"
| "app email_str digest rnd (FetchServiceProvider provider_id) db =
     fetch_service_provider provider_id db"
| "app email_str digest rnd (SearchServiceProviders service_type) db =
     (if form_required [service_type]
      then search_mentors_by_expertise_sp service_type db
      else (Inl RequestValidationError, db))"

section \<open>Store invariant\<close>

text \<open>
  What the primary key and the auto-increment counter guarantee of a table: the ids of its
  rows increase strictly along the table and lie below the counter. For the users table
  the \<^verbatim>\<open>unique\<close> email column adds that no two rows share an email.
\<close>

definition table_inv :: "('r \<Rightarrow> int) \<Rightarrow> 'r table \<Rightarrow> bool" where
  "table_inv idf t =
     (sorted_wrt (<) (map idf (rows t)) \<and> list_all (\<lambda>r. idf r < next_id t) (rows t))"

definition store_inv :: "store \<Rightarrow> bool" where
  "store_inv db =
     (table_inv u_id (users db) \<and> table_inv m_id (mentors db) \<and>
      table_inv sp_id (service_providers db) \<and>
      distinct (map u_email (rows (users db))))"

section \<open>Substrings, as the specification words the searches\<close>

text \<open>
  \<open>is_substring q s\<close>: the query \<open>q\<close> occurs in \<open>s\<close> as a contiguous run.
  \<open>ci_substring\<close> compares after folding case on both sides.
\<close>

fun starts_with :: "string \<Rightarrow> string \<Rightarrow> bool" where
  "starts_with s [] = True"
| "starts_with [] (c # q) = False"
| "starts_with (d # s) (c # q) = (d = c \<and> starts_with s q)"

fun is_substring :: "string \<Rightarrow> string \<Rightarrow> bool" where
  "is_substring q [] = (q = [])"
| "is_substring q (c # t) = (starts_with (c # t) q \<or> is_substring q t)"

definition ci_substring :: "string \<Rightarrow> string \<Rightarrow> bool" where
  "ci_substring q s = is_substring (lower q) (lower s)"

text \<open>The characters that \<^verbatim>\<open>LIKE\<close> does not take literally.\<close>

definition like_special :: "char \<Rightarrow> bool" where
  "like_special c = (c = CHR ''%'' \<or> c = CHR ''_'' \<or> c = CHR 0x5C)"

definition plain_query :: "string \<Rightarrow> bool" where
  "plain_query q = list_all (\<lambda>c. \<not> like_special c) q"

section \<open>Pages and appends, as the specification words them\<close>

text \<open>
  \<open>is_page skip limit tbl xs\<close>: \<open>xs\<close> is the run of at most \<open>limit\<close> rows of \<open>tbl\<close> that
  starts after its first \<open>skip\<close> rows.
\<close>

definition is_page :: "nat \<Rightarrow> nat \<Rightarrow> 'r list \<Rightarrow> 'r list \<Rightarrow> bool" where
  "is_page skip limit tbl xs =
     (length xs = min limit (length tbl - skip) \<and>
      list_all (\<lambda>i. xs ! i = tbl ! (skip + i)) [0..<length xs])"

text \<open>
  \<open>appended t t'\<close>: table \<open>t'\<close> is table \<open>t\<close> with exactly one row more, at the end; the
  rows of \<open>t\<close> are all there, in place and as they were.
\<close>

definition appended :: "'r table \<Rightarrow> 'r table \<Rightarrow> bool" where
  "appended t t' =
     (length (rows t') = length (rows t) + 1 \<and> take (length (rows t)) (rows t') = rows t)"

section \<open>Sample data\<close>

text \<open>
  A small store for the worked examples. \<open>toy_digest\<close> stands in for bcrypt's digest
  there; the theorems themselves hold for every digest function. \<open>long_password\<close> has 73
  characters.
\<close>

definition toy_digest :: "string \<Rightarrow> string \<Rightarrow> string" where
  "toy_digest password salt = rev password"


definition ann :: user where
  "ann = \<lparr>u_id = 1, u_name = ''Ann'', u_email = ''ann@example.org'', u_phone = ''555-0100'',
          u_preferred_language = ''en'', u_role = ''student'', u_password_hash = ''$2b$hash''\<rparr>"

definition bo :: mentor where
  "bo = \<lparr>m_id = 1, m_name = ''Bo'', m_age = 41, m_location = ''Pune'',
         m_expertise = ''Data Science'', m_experience = 12\<rparr>"

definition cy :: service_provider where
  "cy = \<lparr>sp_id = 1, sp_name = ''Cy'', sp_service_type = ''Plumbing'', sp_experience = 5,
         sp_pricing_model = ''hourly'', sp_availability = ''weekdays''\<rparr>"

definition sample_store :: store where
  "sample_store =
     \<lparr>users = \<lparr>rows = [ann], next_id = 2\<rparr>,
      mentors = \<lparr>rows = [bo], next_id = 2\<rparr>,
      service_providers = \<lparr>rows = [cy], next_id = 2\<rparr>\<rparr>"

definition mentor_no :: "int \<Rightarrow> mentor" where
  "mentor_no i = \<lparr>m_id = i, m_name = ''Mentor'', m_age = 30 + i, m_location = ''Pune'',
                  m_expertise = ''Welding'', m_experience = i\<rparr>"

definition fifteen_mentors :: store where
  "fifteen_mentors =
     \<lparr>users = empty_table,
      mentors = \<lparr>rows = map mentor_no [1, 2, 3, 4, 5, 6, 7, 8, 9, 10, 11, 12, 13, 14, 15],
                 next_id = 16\<rparr>,
      service_providers = empty_table\<rparr>"

section \<open>Helper lemmas\<close>

subsection \<open>Case folding and the special characters\<close>

lemma of_char_lower:
  "(of_char (lower_char c) :: nat) =
     (if 65 \<le> (of_char c :: nat) \<and> (of_char c :: nat) \<le> 90 then of_char c + 32 else of_char c)"
  by (simp add: lower_char_def Let_def take_bit_eq_mod)

lemma like_special_code: "like_special c \<longleftrightarrow> (of_char c :: nat) \<in> {37, 95, 92}"
proof -
  have e: "c = d \<longleftrightarrow> (of_char c :: nat) = of_char d" for d
    by (simp only: of_char_eq_iff)
  have "c = CHR ''%'' \<longleftrightarrow> (of_char c :: nat) = 37"
    unfolding e [of "CHR ''%''"] by simp
  moreover have "c = CHR ''_'' \<longleftrightarrow> (of_char c :: nat) = 95"
    unfolding e [of "CHR ''_''"] by simp
  moreover have "c = CHR 0x5C \<longleftrightarrow> (of_char c :: nat) = 92"
    unfolding e [of "CHR 0x5C"] by simp
  ultimately show ?thesis unfolding like_special_def by simp
qed

lemma lower_char_special: "like_special (lower_char c) = like_special c"
  unfolding like_special_code of_char_lower by auto

lemma plain_lower: "plain_query q \<Longrightarrow> list_all (\<lambda>c. \<not> like_special c) (lower q)"
  by (induction q) (auto simp: plain_query_def lower_def lower_char_special)

subsection \<open>What a pattern of plain characters between two percent signs matches\<close>

lemma like_literal:
  "list_all (\<lambda>c. \<not> like_special c) q \<Longrightarrow> like (q @ ps) s \<longleftrightarrow> (\<exists>t. s = q @ t \<and> like ps t)"
proof (induction q arbitrary: s)
  case Nil
  then show ?case by simp
next
  case (Cons c q)
  then have c: "c \<noteq> CHR ''%''" "c \<noteq> CHR ''_''" "c \<noteq> CHR 0x5C"
    by (auto simp: like_special_def)
  from Cons have IH: "\<And>s. like (q @ ps) s \<longleftrightarrow> (\<exists>t. s = q @ t \<and> like ps t)" by simp
  show ?case
    by (cases s) (use c IH in auto)
qed

lemma like_percent:
  "like (CHR ''%'' # ps) s \<longleftrightarrow> (\<exists>pre t. s = pre @ t \<and> like ps t)"
proof (induction s)
  case Nil
  then show ?case by simp
next
  case (Cons c s)
  show ?case
  proof
    assume "like (CHR ''%'' # ps) (c # s)"
    then consider "like ps (c # s)" | "like (CHR ''%'' # ps) s" by auto
    then show "\<exists>pre t. c # s = pre @ t \<and> like ps t"
    proof cases
      case 1
      then have "c # s = [] @ (c # s) \<and> like ps (c # s)" by simp
      then show ?thesis by blast
    next
      case 2
      with Cons obtain pre t where "s = pre @ t" "like ps t" by blast
      then have "c # s = (c # pre) @ t \<and> like ps t" by simp
      then show ?thesis by blast
    qed
  next
    assume "\<exists>pre t. c # s = pre @ t \<and> like ps t"
    then obtain pre t where e: "c # s = pre @ t" and l: "like ps t" by blast
    show "like (CHR ''%'' # ps) (c # s)"
    proof (cases pre)
      case Nil
      with e l show ?thesis by simp
    next
      case (Cons d pre')
      with e have "s = pre' @ t" by simp
      with l Cons.IH have "like (CHR ''%'' # ps) s" by blast
      then show ?thesis by simp
    qed
  qed
qed

lemma like_percent_only: "like ''%'' s"
  by (induction s) auto

lemma like_percent_percent: "like ''%%'' s"
  using like_percent [of "''%''" s] like_percent_only by auto

lemma starts_with_iff: "starts_with s q \<longleftrightarrow> (\<exists>t. s = q @ t)"
  by (induction s q rule: starts_with.induct) auto

lemma is_substring_iff: "is_substring q s \<longleftrightarrow> (\<exists>pre post. s = pre @ q @ post)"
proof (induction s)
  case Nil
  then show ?case by auto
next
  case (Cons c s)
  show ?case
  proof
    assume "is_substring q (c # s)"
    then consider "starts_with (c # s) q" | "is_substring q s" by auto
    then show "\<exists>pre post. c # s = pre @ q @ post"
    proof cases
      case 1
      then obtain t where "c # s = [] @ q @ t" by (auto simp: starts_with_iff)
      then show ?thesis by blast
    next
      case 2
      with Cons obtain pre post where "s = pre @ q @ post" by blast
      then have "c # s = (c # pre) @ q @ post" by simp
      then show ?thesis by blast
    qed
  next
    assume "\<exists>pre post. c # s = pre @ q @ post"
    then obtain pre post where e: "c # s = pre @ q @ post" by blast
    show "is_substring q (c # s)"
    proof (cases pre)
      case Nil
      with e have "starts_with (c # s) q" by (auto simp: starts_with_iff)
      then show ?thesis by simp
    next
      case (Cons d pre')
      with e have "s = pre' @ q @ post" by simp
      with Cons.IH have "is_substring q s" by blast
      then show ?thesis by simp
    qed
  qed
qed

lemma ilike_plain:
  assumes "plain_query q"
  shows "ilike col (''%'' @ q @ ''%'') \<longleftrightarrow> ci_substring q col"
proof -
  have l: "lower (''%'' @ q @ ''%'') = CHR ''%'' # (lower q @ ''%'')"
    by (simp add: lower_def lower_char_def)
  have "ilike col (''%'' @ q @ ''%'') \<longleftrightarrow> (\<exists>pre t. lower col = pre @ t \<and> like (lower q @ ''%'') t)"
    unfolding ilike_def l by (rule like_percent)
  also have "\<dots> \<longleftrightarrow> (\<exists>pre t. lower col = pre @ t \<and> (\<exists>u. t = lower q @ u))"
    using like_literal [OF plain_lower [OF assms], of "''%''"] like_percent_only by simp
  also have "\<dots> \<longleftrightarrow> (\<exists>pre post. lower col = pre @ lower q @ post)"
    by blast
  finally show ?thesis by (simp add: ci_substring_def is_substring_iff)
qed

subsection \<open>The invariant holds initially and after every request\<close>

lemma table_inv_empty: "table_inv idf empty_table"
  by (simp add: table_inv_def empty_table_def)

lemma table_inv_add:
  assumes "table_inv idf t" and "\<And>i. idf (mk i) = i"
  shows "table_inv idf (snd (add_commit_refresh mk t))"
proof -
  have lt: "\<forall>r \<in> set (rows t). idf r < next_id t"
    using assms(1) by (simp add: table_inv_def list_all_iff)
  have s: "sorted_wrt (<) (map idf (rows t))"
    using assms(1) by (simp add: table_inv_def)
  have "sorted_wrt (<) (map idf (rows t @ [mk (next_id t)]))"
    using s lt assms(2) by (simp add: sorted_wrt_append)
  moreover have "list_all (\<lambda>r. idf r < next_id t + 1) (rows t @ [mk (next_id t)])"
    using lt assms(2) by (auto simp: list_all_iff)
  ultimately show ?thesis
    by (simp add: table_inv_def add_commit_refresh_def Let_def)
qed

lemma table_inv_distinct: "table_inv idf t \<Longrightarrow> distinct (map idf (rows t))"
  using strict_sorted_iff [of "map idf (rows t)"] by (simp add: table_inv_def)

lemma table_inv_fresh: "table_inv idf t \<Longrightarrow> r \<in> set (rows t) \<Longrightarrow> idf r \<noteq> next_id t"
  by (auto simp: table_inv_def list_all_iff)

lemma first_filter_None: "first (filter_by P q) = None \<longleftrightarrow> (\<forall>r \<in> set q. \<not> P r)"
  by (induction q) (auto simp: first_def filter_by_def)

lemma first_filter_Some: "(\<exists>r. first (filter_by P q) = Some r) \<longleftrightarrow> (\<exists>r \<in> set q. P r)"
  by (induction q) (auto simp: first_def filter_by_def)

lemma first_filter_unique:
  assumes "distinct (map f q)" and "r \<in> set q"
  shows "first (filter_by (\<lambda>x. f x = f r) q) = Some r"
  using assms by (induction q) (auto simp: first_def filter_by_def image_iff)

subsection \<open>What the handlers do to the store\<close>

lemma register_user_store:
  "snd (register_user digest rnd name email phone preferred_language role password db) =
     (case first (filter_by (\<lambda>u. u_email u = email) (query (users db))) of
        Some _ \<Rightarrow> db
      | None \<Rightarrow>
          (case hash_password digest rnd password of
             Inl e \<Rightarrow> db
           | Inr h \<Rightarrow> db\<lparr>users := snd (add_commit_refresh
                  (\<lambda>i. \<lparr>u_id = i, u_name = name, u_email = email, u_phone = phone,
                        u_preferred_language = preferred_language, u_role = role,
                        u_password_hash = h\<rparr>) (users db))\<rparr>))"
  by (simp add: register_user_def Let_def split_beta split: option.splits sum.splits)

lemma register_mentor_store:
  "snd (register_mentor name age location expertise experience db) =
     db\<lparr>mentors := snd (add_commit_refresh
             (\<lambda>i. \<lparr>m_id = i, m_name = name, m_age = age, m_location = location,
                   m_expertise = expertise, m_experience = experience\<rparr>) (mentors db))\<rparr>"
  by (simp add: register_mentor_def Let_def split_beta)

lemma register_service_provider_store:
  "snd (register_service_provider name service_type experience pricing_model availability db) =
     db\<lparr>service_providers := snd (add_commit_refresh
             (\<lambda>i. \<lparr>sp_id = i, sp_name = name, sp_service_type = service_type,
                   sp_experience = experience, sp_pricing_model = pricing_model,
                   sp_availability = availability\<rparr>) (service_providers db))\<rparr>"
  by (simp add: register_service_provider_def Let_def split_beta)

lemma filter_own_id:
  assumes "table_inv idf t" and "idf r = next_id t"
  shows "filter (\<lambda>x. idf x = next_id t) (rows t @ [r]) = [r]"
proof -
  have "\<forall>x \<in> set (rows t). idf x < next_id t"
    using assms(1) by (simp add: table_inv_def list_all_iff)
  then have "\<forall>x \<in> set (rows t). idf x \<noteq> next_id t"
    by auto
  then have "filter (\<lambda>x. idf x = next_id t) (rows t) = []"
    by (simp only: filter_empty_conv)
  then show ?thesis using assms(2) by simp
qed

lemma empty_store_inv: "store_inv empty_store"
  by (simp add: store_inv_def empty_store_def table_inv_empty) (simp add: empty_table_def)


lemma register_user_inv:
  assumes "store_inv db"
  shows "store_inv (snd (register_user digest rnd name email phone preferred_language role password db))"
proof (cases "first (filter_by (\<lambda>u. u_email u = email) (query (users db)))")
  case (Some r)
  with assms show ?thesis by (simp add: register_user_store)
next
  case None
  then have fresh: "\<forall>u \<in> set (rows (users db)). u_email u \<noteq> email"
    by (simp add: first_filter_None query_def)
  show ?thesis
  proof (cases "hash_password digest rnd password")
    case (Inl e)
    with None assms show ?thesis by (simp add: register_user_store)
  next
    case (Inr h)
    define mk where "mk = (\<lambda>i. \<lparr>u_id = i, u_name = name, u_email = email, u_phone = phone,
                     u_preferred_language = preferred_language, u_role = role,
                     u_password_hash = h\<rparr>)"
    have i: "u_id (mk i) = i" for i by (simp add: mk_def)
    have t: "table_inv u_id (snd (add_commit_refresh mk (users db)))"
      using assms i by (intro table_inv_add) (simp_all add: store_inv_def)
    have "rows (snd (add_commit_refresh mk (users db))) = rows (users db) @ [mk (next_id (users db))]"
      by (simp add: add_commit_refresh_def Let_def)
    moreover have "u_email (mk (next_id (users db))) = email" by (simp add: mk_def)
    ultimately have d: "distinct (map u_email (rows (snd (add_commit_refresh mk (users db)))))"
      using assms fresh by (auto simp: store_inv_def)
    have "snd (register_user digest rnd name email phone preferred_language role password db)
            = db\<lparr>users := snd (add_commit_refresh mk (users db))\<rparr>"
      using None Inr by (simp add: register_user_store mk_def)
    moreover have "store_inv (db\<lparr>users := snd (add_commit_refresh mk (users db))\<rparr>)"
      using t d assms by (simp add: store_inv_def)
    ultimately show ?thesis by simp
  qed
qed


lemma register_mentor_inv:
  assumes "store_inv db"
  shows "store_inv (snd (register_mentor name age location expertise experience db))"
proof -
  define mk where "mk = (\<lambda>i. \<lparr>m_id = i, m_name = name, m_age = age, m_location = location,
                   m_expertise = expertise, m_experience = experience\<rparr>)"
  have i: "m_id (mk i) = i" for i by (simp add: mk_def)
  have "table_inv m_id (snd (add_commit_refresh mk (mentors db)))"
    using assms i by (intro table_inv_add) (simp_all add: store_inv_def)
  then have "store_inv (db\<lparr>mentors := snd (add_commit_refresh mk (mentors db))\<rparr>)"
    using assms by (simp add: store_inv_def)
  then show ?thesis by (simp add: register_mentor_store mk_def)
qed


lemma register_service_provider_inv:
  assumes "store_inv db"
  shows "store_inv (snd (register_service_provider name service_type experience pricing_model availability db))"
proof -
  define mk where "mk = (\<lambda>i. \<lparr>sp_id = i, sp_name = name, sp_service_type = service_type,
                   sp_experience = experience, sp_pricing_model = pricing_model,
                   sp_availability = availability\<rparr>)"
  have i: "sp_id (mk i) = i" for i by (simp add: mk_def)
  have "table_inv sp_id (snd (add_commit_refresh mk (service_providers db)))"
    using assms i by (intro table_inv_add) (simp_all add: store_inv_def)
  then have "store_inv (db\<lparr>service_providers := snd (add_commit_refresh mk (service_providers db))\<rparr>)"
    using assms by (simp add: store_inv_def)
  then show ?thesis by (simp add: register_service_provider_store mk_def)
qed


lemma read_only:
  "snd (fetch_users skip limit db) = db"
  "snd (fetch_mentors skip limit db) = db"
  "snd (fetch_service_providers skip limit db) = db"
  "snd (fetch_service_provider provider_id db) = db"
  "snd (search_mentors_by_expertise q db) = db"
  "snd (search_mentors_by_expertise_sp q db) = db"
  by (simp_all add: fetch_users_def fetch_mentors_def fetch_service_providers_def
        fetch_service_provider_def search_mentors_by_expertise_def
        search_mentors_by_expertise_sp_def Let_def split: sum.splits option.splits)

lemma app_inv:
  assumes "store_inv db"
  shows "store_inv (snd (app email_str digest rnd req db))"
proof (cases req)
  case (RegisterUser name email phone preferred_language role password)
  then show ?thesis
    using register_user_inv [OF assms] assms by (simp split: option.splits)
next
  case (RegisterMentor name age location expertise experience)
  then show ?thesis using register_mentor_inv [OF assms] assms by simp
next
  case (RegisterServiceProvider name service_type experience pricing_model availability)
  then show ?thesis using register_service_provider_inv [OF assms] assms by simp
qed (simp_all add: read_only assms)

subsection \<open>Pages\<close>

lemma take_drop_is_page: "is_page skip limit tbl (take limit (drop skip tbl))"
  by (auto simp: is_page_def list_all_iff min_def)

lemma is_page_unique:
  assumes "is_page skip limit tbl xs" and "is_page skip limit tbl ys"
  shows "xs = ys"
  using assms by (intro nth_equalityI) (auto simp: is_page_def list_all_iff)

lemma offset_limit_all_page:
  assumes "0 \<le> skip" and "0 \<le> limit"
  shows "\<exists>xs. offset_limit_all skip limit q = Inr xs \<and> is_page (nat skip) (nat limit) q xs"
  using assms by (simp add: offset_limit_all_def take_drop_is_page)

subsection \<open>The searches on plain queries\<close>

lemma search_mentors_plain:
  assumes "plain_query q"
  shows "search_mentors_by_expertise q db =
     (if \<exists>m \<in> set (rows (mentors db)). ci_substring q (m_expertise m)
      then (Inr (RMentors (filter (\<lambda>m. ci_substring q (m_expertise m)) (rows (mentors db)))), db)
      else (Inl (HTTPException 404 ''No mentors found with the given expertise''), db))"
proof -
  have "filter_by (\<lambda>m. ilike (m_expertise m) (''%'' @ q @ ''%'')) (query (mentors db))
          = filter (\<lambda>m. ci_substring q (m_expertise m)) (rows (mentors db))"
    by (simp only: ilike_plain [OF assms] query_def filter_by_def)
  then show ?thesis
    by (simp only: search_mentors_by_expertise_def Let_def filter_empty_conv) auto
qed

lemma search_providers_plain:
  assumes "plain_query q"
  shows "search_mentors_by_expertise_sp q db =
     (if \<exists>p \<in> set (rows (service_providers db)). ci_substring q (sp_service_type p)
      then (Inr (RProviders (filter (\<lambda>p. ci_substring q (sp_service_type p))
                               (rows (service_providers db)))), db)
      else (Inl (HTTPException 404 ''No mentors found with the given expertise''), db))"
proof -
  have "filter_by (\<lambda>p. ilike (sp_service_type p) (''%'' @ q @ ''%'')) (query (service_providers db))
          = filter (\<lambda>p. ci_substring q (sp_service_type p)) (rows (service_providers db))"
    by (simp only: ilike_plain [OF assms] query_def filter_by_def)
  then show ?thesis
    by (simp only: search_mentors_by_expertise_sp_def Let_def filter_empty_conv) auto
qed

lemma ilike_percent: "ilike col (''%'' @ ''%'' @ ''%'')"
proof -
  have "like ''%%%'' s" for s
    using like_percent [of "''%%''" s] like_percent_percent by blast
  then show ?thesis
    by (simp add: ilike_def lower_def lower_char_def del: like.simps)
qed

lemma search_mentors_all:
  "filter_by (\<lambda>m. ilike (m_expertise m) (''%'' @ ''%'' @ ''%'')) (query (mentors db))
     = rows (mentors db)"
  by (simp only: ilike_percent query_def filter_by_def) simp

lemma search_providers_all:
  "filter_by (\<lambda>p. ilike (sp_service_type p) (''%'' @ ''%'' @ ''%'')) (query (service_providers db))
     = rows (service_providers db)"
  by (simp only: ilike_percent query_def filter_by_def) simp

section \<open>Claims\<close>

text \<open>
  C1. Whenever the email of a registration request equals the email of some stored user,
  \<open>register_user\<close> fails with \<^verbatim>\<open>HTTPException(400, "Email already registered")\<close> and the
  store it leaves is the store it found: no row is inserted, none is changed.
\<close>

theorem register_user_conflict:
  assumes "\<exists>u \<in> set (rows (users db)). u_email u = email"
  shows "register_user digest rnd name email phone preferred_language role password db
           = (Inl (HTTPException 400 ''Email already registered''), db)"
proof -
  from assms obtain r where
    "first (filter_by (\<lambda>u. u_email u = email) (query (users db))) = Some r"
    using first_filter_Some [of "\<lambda>u. u_email u = email" "query (users db)"]
    by (auto simp: query_def)
  then show ?thesis by (simp add: register_user_def)
qed

theorem register_user_conflict_witness:
  "(\<exists>u \<in> set (rows (users sample_store)). u_email u = ''ann@example.org'') \<and>
   register_user toy_digest ''abcdefghijklmnopqrstuv'' ''Dee'' ''ann@example.org'' ''555-0101''
       ''en'' ''admin'' ''secret'' sample_store
     = (Inl (HTTPException 400 ''Email already registered''), sample_store)"
proof -
  have h: "\<exists>u \<in> set (rows (users sample_store)). u_email u = ''ann@example.org''"
    by code_simp
  from h register_user_conflict [OF h] show ?thesis by simp
qed




text \<open>
  C3. For every non-negative \<open>skip\<close> and \<open>limit\<close>, each of the three list handlers returns
  the page of its table: the rows at positions \<open>skip\<close>, \<open>skip + 1\<close>, ... of the table in
  table order, \<open>limit\<close> of them or as many as are left, none filtered out, and leaves the
  store alone. A parameter that is left out is 0 for \<open>skip\<close> and 10 for \<open>limit\<close>. Over a
  table of 15 mentors the default listing returns the first 10 rows.
\<close>

theorem fetch_returns_page:
  assumes "0 \<le> skip" and "0 \<le> limit"
  shows "(\<exists>xs. fetch_users (Some skip) (Some limit) db = (Inr (RUsers xs), db) \<and>
              is_page (nat skip) (nat limit) (rows (users db)) xs) \<and>
         (\<exists>xs. fetch_mentors (Some skip) (Some limit) db = (Inr (RMentors xs), db) \<and>
              is_page (nat skip) (nat limit) (rows (mentors db)) xs) \<and>
         (\<exists>xs. fetch_service_providers (Some skip) (Some limit) db = (Inr (RProviders xs), db) \<and>
              is_page (nat skip) (nat limit) (rows (service_providers db)) xs) \<and>
         fetch_users None (Some limit) db = fetch_users (Some 0) (Some limit) db \<and>
         fetch_users (Some skip) None db = fetch_users (Some skip) (Some 10) db \<and>
         fetch_users None None db = fetch_users (Some 0) (Some 10) db \<and>
         fetch_mentors None (Some limit) db = fetch_mentors (Some 0) (Some limit) db \<and>
         fetch_mentors (Some skip) None db = fetch_mentors (Some skip) (Some 10) db \<and>
         fetch_mentors None None db = fetch_mentors (Some 0) (Some 10) db \<and>
         fetch_service_providers None (Some limit) db
           = fetch_service_providers (Some 0) (Some limit) db \<and>
         fetch_service_providers (Some skip) None db
           = fetch_service_providers (Some skip) (Some 10) db \<and>
         fetch_service_providers None None db = fetch_service_providers (Some 0) (Some 10) db \<and>
         (length (rows (mentors db)) = 15 \<longrightarrow>
            fetch_mentors None None db = (Inr (RMentors (take 10 (rows (mentors db)))), db) \<and>
            length (take 10 (rows (mentors db))) = 10)"
proof -
  have u: "\<exists>xs. fetch_users (Some skip) (Some limit) db = (Inr (RUsers xs), db) \<and>
              is_page (nat skip) (nat limit) (rows (users db)) xs"
    using offset_limit_all_page [OF assms, of "rows (users db)"]
    by (auto simp: fetch_users_def query_def)
  have m: "\<exists>xs. fetch_mentors (Some skip) (Some limit) db = (Inr (RMentors xs), db) \<and>
              is_page (nat skip) (nat limit) (rows (mentors db)) xs"
    using offset_limit_all_page [OF assms, of "rows (mentors db)"]
    by (auto simp: fetch_mentors_def query_def)
  have p: "\<exists>xs. fetch_service_providers (Some skip) (Some limit) db = (Inr (RProviders xs), db) \<and>
              is_page (nat skip) (nat limit) (rows (service_providers db)) xs"
    using offset_limit_all_page [OF assms, of "rows (service_providers db)"]
    by (auto simp: fetch_service_providers_def query_def)
  have du: "fetch_users None (Some limit) db = fetch_users (Some 0) (Some limit) db"
    "fetch_users (Some skip) None db = fetch_users (Some skip) (Some 10) db"
    "fetch_users None None db = fetch_users (Some 0) (Some 10) db"
    by (simp_all add: fetch_users_def)
  have dm: "fetch_mentors None (Some limit) db = fetch_mentors (Some 0) (Some limit) db"
    "fetch_mentors (Some skip) None db = fetch_mentors (Some skip) (Some 10) db"
    "fetch_mentors None None db = fetch_mentors (Some 0) (Some 10) db"
    by (simp_all add: fetch_mentors_def)
  have dp: "fetch_service_providers None (Some limit) db
              = fetch_service_providers (Some 0) (Some limit) db"
    "fetch_service_providers (Some skip) None db
       = fetch_service_providers (Some skip) (Some 10) db"
    "fetch_service_providers None None db = fetch_service_providers (Some 0) (Some 10) db"
    by (simp_all add: fetch_service_providers_def)
  have f: "length (rows (mentors db)) = 15 \<longrightarrow>
            fetch_mentors None None db = (Inr (RMentors (take 10 (rows (mentors db)))), db) \<and>
            length (take 10 (rows (mentors db))) = 10"
    by (simp add: fetch_mentors_def offset_limit_all_def query_def)
  from u m p du dm dp f show ?thesis by blast
qed

theorem fetch_returns_page_witness:
  "(0::int) \<le> 0 \<and> (0::int) \<le> 10 \<and> length (rows (mentors fifteen_mentors)) = 15 \<and>
   fetch_mentors None None fifteen_mentors
     = (Inr (RMentors (take 10 (rows (mentors fifteen_mentors)))), fifteen_mentors) \<and>
   take 10 (rows (mentors fifteen_mentors)) = map mentor_no [1, 2, 3, 4, 5, 6, 7, 8, 9, 10]"
proof -
  have z: "(0::int) \<le> 0" "(0::int) \<le> 10"
    by simp_all
  have l: "length (rows (mentors fifteen_mentors)) = 15"
    by (simp add: fifteen_mentors_def)
  have t: "take 10 (rows (mentors fifteen_mentors)) = map mentor_no [1, 2, 3, 4, 5, 6, 7, 8, 9, 10]"
    by (simp add: fifteen_mentors_def)
  have "fetch_mentors None None fifteen_mentors
          = (Inr (RMentors (take 10 (rows (mentors fifteen_mentors)))), fifteen_mentors)"
    using fetch_returns_page [OF z, of fifteen_mentors] l by blast
  with l t show ?thesis by simp
qed

text \<open>
  C5. Round trip. In a store that satisfies the invariant, registering a service provider
  returns a dict with the new id under \<^verbatim>\<open>id\<close>, and \<open>fetch_service_provider\<close> with that id
  on the store just written returns the row whose name, service type, experience, pricing
  model and availability are the registered ones.
\<close>

theorem provider_round_trip:
  assumes "store_inv db"
  shows "\<exists>i d db'.
     register_service_provider name service_type experience pricing_model availability db
        = (Inr (RDict d), db') \<and>
     map_of d ''id'' = Some (JInt i) \<and>
     fetch_service_provider i db'
        = (Inr (RProvider \<lparr>sp_id = i, sp_name = name, sp_service_type = service_type,
                           sp_experience = experience, sp_pricing_model = pricing_model,
                           sp_availability = availability\<rparr>), db')"
proof -
  define r where "r = \<lparr>sp_id = next_id (service_providers db), sp_name = name,
      sp_service_type = service_type, sp_experience = experience,
      sp_pricing_model = pricing_model, sp_availability = availability\<rparr>"
  define db' where "db' = db\<lparr>service_providers :=
      \<lparr>rows = rows (service_providers db) @ [r], next_id = next_id (service_providers db) + 1\<rparr>\<rparr>"
  have inv: "table_inv sp_id (service_providers db)"
    using assms by (simp add: store_inv_def)
  have i: "sp_id r = next_id (service_providers db)"
    by (simp add: r_def)
  have reg: "register_service_provider name service_type experience pricing_model availability db
        = (Inr (RDict [(''id'', JInt (next_id (service_providers db))), (''name'', JStr name),
             (''service_type'', JStr service_type), (''experience'', JInt experience),
             (''pricing_model'', JStr pricing_model), (''availability'', JStr availability)]), db')"
    by (simp add: register_service_provider_def add_commit_refresh_def Let_def db'_def r_def)
  have "filter_by (\<lambda>p. sp_id p = next_id (service_providers db)) (query (service_providers db'))
          = [r]"
    using filter_own_id [OF inv i] by (simp add: filter_by_def query_def db'_def)
  then have "fetch_service_provider (next_id (service_providers db)) db' = (Inr (RProvider r), db')"
    by (simp add: fetch_service_provider_def first_def)
  with reg show ?thesis unfolding r_def by simp
qed

theorem provider_round_trip_witness:
  "store_inv sample_store \<and>
   (\<exists>i d db'.
     register_service_provider ''Di'' ''Tiling'' 7 ''fixed'' ''weekends'' sample_store
        = (Inr (RDict d), db') \<and>
     map_of d ''id'' = Some (JInt i) \<and>
     fetch_service_provider i db'
        = (Inr (RProvider \<lparr>sp_id = i, sp_name = ''Di'', sp_service_type = ''Tiling'',
                           sp_experience = 7, sp_pricing_model = ''fixed'',
                           sp_availability = ''weekends''\<rparr>), db'))"
proof -
  have h: "store_inv sample_store" by code_simp
  from h provider_round_trip [OF h] show ?thesis by blast
qed

text \<open>
  C7. \<open>fetch_service_provider\<close> fails with \<^verbatim>\<open>HTTPException(404, "Service provider not
  found")\<close> when no row of the table has the id. In a store that satisfies the invariant it
  returns the row that has the id, and no other row has it. The store is the same
  afterwards either way.
\<close>

theorem fetch_service_provider_by_id:
  "((\<forall>p \<in> set (rows (service_providers db)). sp_id p \<noteq> provider_id) \<longrightarrow>
      fetch_service_provider provider_id db
        = (Inl (HTTPException 404 ''Service provider not found''), db)) \<and>
   (store_inv db \<longrightarrow>
      (\<forall>p \<in> set (rows (service_providers db)). sp_id p = provider_id \<longrightarrow>
         fetch_service_provider provider_id db = (Inr (RProvider p), db) \<and>
         (\<forall>p' \<in> set (rows (service_providers db)). sp_id p' = provider_id \<longrightarrow> p' = p))) \<and>
   snd (fetch_service_provider provider_id db) = db"
proof (intro conjI impI ballI)
  assume "\<forall>p \<in> set (rows (service_providers db)). sp_id p \<noteq> provider_id"
  then have "first (filter_by (\<lambda>p. sp_id p = provider_id) (query (service_providers db))) = None"
    by (simp add: first_filter_None query_def)
  then show "fetch_service_provider provider_id db
        = (Inl (HTTPException 404 ''Service provider not found''), db)"
    by (simp add: fetch_service_provider_def)
next
  fix p
  assume inv: "store_inv db" and p: "p \<in> set (rows (service_providers db))"
    and i: "sp_id p = provider_id"
  have d: "distinct (map sp_id (rows (service_providers db)))"
    using inv by (simp add: store_inv_def table_inv_distinct)
  have "first (filter_by (\<lambda>x. sp_id x = sp_id p) (query (service_providers db))) = Some p"
    unfolding query_def using d p by (rule first_filter_unique)
  then show "fetch_service_provider provider_id db = (Inr (RProvider p), db)"
    using i by (simp add: fetch_service_provider_def)
next
  fix p p'
  assume inv: "store_inv db" and p: "p \<in> set (rows (service_providers db))"
    and i: "sp_id p = provider_id" and p': "p' \<in> set (rows (service_providers db))"
    and i': "sp_id p' = provider_id"
  have "distinct (map sp_id (rows (service_providers db)))"
    using inv by (simp add: store_inv_def table_inv_distinct)
  then have "inj_on sp_id (set (rows (service_providers db)))"
    by (simp add: distinct_map)
  with p p' i i' show "p' = p" by (auto dest: inj_onD)
next
  show "snd (fetch_service_provider provider_id db) = db"
    by (rule read_only)
qed

theorem fetch_service_provider_by_id_witness:
  "7 \<notin> set (map sp_id (rows (service_providers sample_store))) \<and>
   fetch_service_provider 7 sample_store
     = (Inl (HTTPException 404 ''Service provider not found''), sample_store) \<and>
   store_inv sample_store \<and> cy \<in> set (rows (service_providers sample_store)) \<and> sp_id cy = 1 \<and>
   fetch_service_provider 1 sample_store = (Inr (RProvider cy), sample_store)"
proof -
  have a: "\<forall>p \<in> set (rows (service_providers sample_store)). sp_id p \<noteq> 7" by code_simp
  have h: "store_inv sample_store" by code_simp
  have c: "cy \<in> set (rows (service_providers sample_store))" by (simp add: sample_store_def)
  have i: "sp_id cy = 1" by (simp add: cy_def)
  have a': "7 \<notin> set (map sp_id (rows (service_providers sample_store)))"
    using a by auto
  from a a' h c i fetch_service_provider_by_id [of sample_store 7]
    fetch_service_provider_by_id [of sample_store 1]
  show ?thesis by blast
qed

text \<open>
  C4, as the specification states it, fails: the query goes into the \<^verbatim>\<open>LIKE\<close> pattern
  unescaped, so a query of \<^verbatim>\<open>%\<close> gives the pattern \<^verbatim>\<open>%%%\<close>, which matches every
  expertise. The search returns the mentor whose expertise is \<^verbatim>\<open>Data Science\<close>, a
  string that does not contain \<^verbatim>\<open>%\<close>.
\<close>

theorem search_mentors_percent_counterexample:
  "search_mentors_by_expertise ''%'' sample_store = (Inr (RMentors [bo]), sample_store) \<and>
   m_expertise bo = ''Data Science'' \<and> \<not> ci_substring ''%'' (m_expertise bo)"
  by code_simp

text \<open>
  C4, amended. For every query without a \<^verbatim>\<open>LIKE\<close> special character (\<^verbatim>\<open>%\<close>,
  \<^verbatim>\<open>_\<close>, backslash), \<open>search_mentors_by_expertise\<close> returns exactly the stored mentors
  whose expertise contains the query as a substring up to case, in table order, when there
  is at least one, and fails with 404 when there is none. A query of \<^verbatim>\<open>DATA\<close> finds every
  stored mentor whose expertise is \<^verbatim>\<open>Data Science\<close>.
\<close>

theorem search_mentors_substring:
  assumes "plain_query expertise"
  shows "search_mentors_by_expertise expertise db =
           (if \<exists>m \<in> set (rows (mentors db)). ci_substring expertise (m_expertise m)
            then (Inr (RMentors (filter (\<lambda>m. ci_substring expertise (m_expertise m))
                                    (rows (mentors db)))), db)
            else (Inl (HTTPException 404 ''No mentors found with the given expertise''), db)) \<and>
         (\<forall>m \<in> set (rows (mentors db)). m_expertise m = ''Data Science'' \<longrightarrow>
            (\<exists>ms. search_mentors_by_expertise ''DATA'' db = (Inr (RMentors ms), db) \<and>
                  m \<in> set ms))"
proof
  show "search_mentors_by_expertise expertise db =
           (if \<exists>m \<in> set (rows (mentors db)). ci_substring expertise (m_expertise m)
            then (Inr (RMentors (filter (\<lambda>m. ci_substring expertise (m_expertise m))
                                    (rows (mentors db)))), db)
            else (Inl (HTTPException 404 ''No mentors found with the given expertise''), db))"
    using assms by (rule search_mentors_plain)
next
  have p: "plain_query ''DATA''" by code_simp
  have c: "ci_substring ''DATA'' ''Data Science''" by code_simp
  show "\<forall>m \<in> set (rows (mentors db)). m_expertise m = ''Data Science'' \<longrightarrow>
            (\<exists>ms. search_mentors_by_expertise ''DATA'' db = (Inr (RMentors ms), db) \<and>
                  m \<in> set ms)"
  proof (intro ballI impI)
    fix m
    assume m: "m \<in> set (rows (mentors db))" and e: "m_expertise m = ''Data Science''"
    have c': "ci_substring ''DATA'' (m_expertise m)"
      using c e by (simp only:)
    with m have ex: "\<exists>m \<in> set (rows (mentors db)). ci_substring ''DATA'' (m_expertise m)"
      by blast
    have "search_mentors_by_expertise ''DATA'' db
            = (Inr (RMentors (filter (\<lambda>m. ci_substring ''DATA'' (m_expertise m))
                                (rows (mentors db)))), db)"
      unfolding search_mentors_plain [OF p] using ex by (simp only: if_True)
    moreover have "m \<in> set (filter (\<lambda>m. ci_substring ''DATA'' (m_expertise m)) (rows (mentors db)))"
      using m c' by simp
    ultimately show "\<exists>ms. search_mentors_by_expertise ''DATA'' db = (Inr (RMentors ms), db) \<and>
                  m \<in> set ms"
      by blast
  qed
qed

theorem search_mentors_substring_witness:
  "plain_query ''DATA'' \<and> bo \<in> set (rows (mentors sample_store)) \<and>
   m_expertise bo = ''Data Science'' \<and>
   (\<exists>ms. search_mentors_by_expertise ''DATA'' sample_store = (Inr (RMentors ms), sample_store) \<and>
         bo \<in> set ms)"
proof -
  have p: "plain_query ''DATA''" by code_simp
  have b: "bo \<in> set (rows (mentors sample_store))" by (simp add: sample_store_def)
  have e: "m_expertise bo = ''Data Science''" by (simp add: bo_def)
  from search_mentors_substring [OF p, of sample_store] b e
  have "\<exists>ms. search_mentors_by_expertise ''DATA'' sample_store = (Inr (RMentors ms), sample_store) \<and>
         bo \<in> set ms"
    by blast
  with p b e show ?thesis by blast
qed

text \<open>
  C6, as the specification states it, fails for the same reason: with the query
  \<^verbatim>\<open>p_u\<close> the underscore stands for any one character, the only stored provider
  (service type \<^verbatim>\<open>Plumbing\<close>) is found although no stored service type contains
  \<^verbatim>\<open>p_u\<close>, and the search does not fail.
\<close>

theorem search_providers_underscore_counterexample:
  "rows (service_providers sample_store) = [cy] \<and>
   \<not> ci_substring ''p_u'' (sp_service_type cy) \<and>
   search_mentors_by_expertise_sp ''p_u'' sample_store = (Inr (RProviders [cy]), sample_store)"
  by code_simp

text \<open>
  C6, amended. For every query without a \<^verbatim>\<open>LIKE\<close> special character, each of the two
  searches fails with 404 if and only if no stored record contains the query as a substring
  up to case in the searched column; otherwise it returns the matching records, and there is
  at least one.
\<close>

theorem search_not_found_iff:
  assumes "plain_query q"
  shows "(search_mentors_by_expertise q db
            = (Inl (HTTPException 404 ''No mentors found with the given expertise''), db)
          \<longleftrightarrow> (\<forall>m \<in> set (rows (mentors db)). \<not> ci_substring q (m_expertise m))) \<and>
         ((\<exists>m \<in> set (rows (mentors db)). ci_substring q (m_expertise m)) \<longrightarrow>
            (\<exists>ms. search_mentors_by_expertise q db = (Inr (RMentors ms), db) \<and> ms \<noteq> [] \<and>
                  set ms = {m \<in> set (rows (mentors db)). ci_substring q (m_expertise m)})) \<and>
         (search_mentors_by_expertise_sp q db
            = (Inl (HTTPException 404 ''No mentors found with the given expertise''), db)
          \<longleftrightarrow> (\<forall>p \<in> set (rows (service_providers db)). \<not> ci_substring q (sp_service_type p))) \<and>
         ((\<exists>p \<in> set (rows (service_providers db)). ci_substring q (sp_service_type p)) \<longrightarrow>
            (\<exists>ps. search_mentors_by_expertise_sp q db = (Inr (RProviders ps), db) \<and> ps \<noteq> [] \<and>
                  set ps = {p \<in> set (rows (service_providers db)).
                              ci_substring q (sp_service_type p)}))"
proof (intro conjI)
  show "search_mentors_by_expertise q db
            = (Inl (HTTPException 404 ''No mentors found with the given expertise''), db)
          \<longleftrightarrow> (\<forall>m \<in> set (rows (mentors db)). \<not> ci_substring q (m_expertise m))"
    unfolding search_mentors_plain [OF assms] by auto
next
  show "(\<exists>m \<in> set (rows (mentors db)). ci_substring q (m_expertise m)) \<longrightarrow>
            (\<exists>ms. search_mentors_by_expertise q db = (Inr (RMentors ms), db) \<and> ms \<noteq> [] \<and>
                  set ms = {m \<in> set (rows (mentors db)). ci_substring q (m_expertise m)})"
    unfolding search_mentors_plain [OF assms] by (auto simp: filter_empty_conv)
next
  show "search_mentors_by_expertise_sp q db
            = (Inl (HTTPException 404 ''No mentors found with the given expertise''), db)
          \<longleftrightarrow> (\<forall>p \<in> set (rows (service_providers db)). \<not> ci_substring q (sp_service_type p))"
    unfolding search_providers_plain [OF assms] by auto
next
  show "(\<exists>p \<in> set (rows (service_providers db)). ci_substring q (sp_service_type p)) \<longrightarrow>
            (\<exists>ps. search_mentors_by_expertise_sp q db = (Inr (RProviders ps), db) \<and> ps \<noteq> [] \<and>
                  set ps = {p \<in> set (rows (service_providers db)).
                              ci_substring q (sp_service_type p)})"
    unfolding search_providers_plain [OF assms] by (auto simp: filter_empty_conv)
qed

theorem search_not_found_iff_witness:
  "plain_query ''zzz-nonexistent'' \<and>
   filter (\<lambda>m. ci_substring ''zzz-nonexistent'' (m_expertise m)) (rows (mentors sample_store)) = [] \<and>
   search_mentors_by_expertise ''zzz-nonexistent'' sample_store
     = (Inl (HTTPException 404 ''No mentors found with the given expertise''), sample_store) \<and>
   plain_query ''plumb'' \<and>
   (\<exists>p \<in> set (rows (service_providers sample_store)). ci_substring ''plumb'' (sp_service_type p)) \<and>
   (\<exists>ps. search_mentors_by_expertise_sp ''plumb'' sample_store = (Inr (RProviders ps), sample_store)
        \<and> ps \<noteq> [])"
proof -
  have p1: "plain_query ''zzz-nonexistent''" by code_simp
  have n: "\<forall>m \<in> set (rows (mentors sample_store)).
             \<not> ci_substring ''zzz-nonexistent'' (m_expertise m)" by code_simp
  have p2: "plain_query ''plumb''" by code_simp
  have y: "\<exists>p \<in> set (rows (service_providers sample_store)).
             ci_substring ''plumb'' (sp_service_type p)" by code_simp
  have a: "search_mentors_by_expertise ''zzz-nonexistent'' sample_store
     = (Inl (HTTPException 404 ''No mentors found with the given expertise''), sample_store)"
    using search_not_found_iff [OF p1, of sample_store] n by blast
  have b: "\<exists>ps. search_mentors_by_expertise_sp ''plumb'' sample_store
                  = (Inr (RProviders ps), sample_store) \<and> ps \<noteq> []"
    using search_not_found_iff [OF p2, of sample_store] y by blast
  have n': "filter (\<lambda>m. ci_substring ''zzz-nonexistent'' (m_expertise m))
              (rows (mentors sample_store)) = []"
    using n by (simp only: filter_empty_conv)
  from p1 n' a p2 y b show ?thesis by blast
qed

text \<open>
  C10, as the specification states it, fails: the query of either search is a
  \<^verbatim>\<open>Form(...)\<close> parameter, and a request that sends the empty string for it is answered
  with 422 before the search runs. Over a table that holds a mentor, the search with the
  empty string returns no table at all.
\<close>

theorem search_empty_query_counterexample:
  "rows (mentors sample_store) = [bo] \<and>
   app Some toy_digest ''abcdefghijklmnopqrstuv'' (SearchMentors []) sample_store
     = (Inl RequestValidationError, sample_store)"
  by code_simp

text \<open>
  C10, amended. A search with the empty string as the query is rejected by request
  validation (422) and leaves the store as it was. The query that matches every stored
  record is \<^verbatim>\<open>%\<close>: the pattern is then \<^verbatim>\<open>%%%\<close>, each search returns its whole table, and
  fails with 404 only when the table is empty.
\<close>

theorem search_match_all_query:
  "app email_str digest rnd (SearchMentors []) db = (Inl RequestValidationError, db) \<and>
   app email_str digest rnd (SearchServiceProviders []) db = (Inl RequestValidationError, db) \<and>
   app email_str digest rnd (SearchMentors ''%'') db =
     (if rows (mentors db) = []
      then (Inl (HTTPException 404 ''No mentors found with the given expertise''), db)
      else (Inr (RMentors (rows (mentors db))), db)) \<and>
   app email_str digest rnd (SearchServiceProviders ''%'') db =
     (if rows (service_providers db) = []
      then (Inl (HTTPException 404 ''No mentors found with the given expertise''), db)
      else (Inr (RProviders (rows (service_providers db))), db))"
proof -
  have "search_mentors_by_expertise ''%'' db =
     (if rows (mentors db) = []
      then (Inl (HTTPException 404 ''No mentors found with the given expertise''), db)
      else (Inr (RMentors (rows (mentors db))), db))"
    by (simp only: search_mentors_by_expertise_def Let_def search_mentors_all)
  moreover have "search_mentors_by_expertise_sp ''%'' db =
     (if rows (service_providers db) = []
      then (Inl (HTTPException 404 ''No mentors found with the given expertise''), db)
      else (Inr (RProviders (rows (service_providers db))), db))"
    by (simp only: search_mentors_by_expertise_sp_def Let_def search_providers_all)
  ultimately show ?thesis
    by (simp add: form_required_def)
qed

theorem search_match_all_query_witness:
  "app Some toy_digest ''abcdefghijklmnopqrstuv'' (SearchServiceProviders []) sample_store
     = (Inl RequestValidationError, sample_store) \<and>
   app Some toy_digest ''abcdefghijklmnopqrstuv'' (SearchMentors ''%'') sample_store
     = (Inr (RMentors [bo]), sample_store) \<and>
   app Some toy_digest ''abcdefghijklmnopqrstuv'' (SearchServiceProviders ''%'') empty_store
     = (Inl (HTTPException 404 ''No mentors found with the given expertise''), empty_store)"
proof -
  have m: "rows (mentors sample_store) = [bo]" by (simp add: sample_store_def)
  have e: "rows (service_providers empty_store) = []"
    by (simp add: empty_store_def empty_table_def)
  note t = search_match_all_query [where email_str = Some and digest = toy_digest
      and rnd = "''abcdefghijklmnopqrstuv''"]
  have "app Some toy_digest ''abcdefghijklmnopqrstuv'' (SearchServiceProviders []) sample_store
     = (Inl RequestValidationError, sample_store)"
    using t [of sample_store] by blast
  moreover have "app Some toy_digest ''abcdefghijklmnopqrstuv'' (SearchMentors ''%'') sample_store
     = (Inr (RMentors [bo]), sample_store)"
    using t [of sample_store] m by simp
  moreover have "app Some toy_digest ''abcdefghijklmnopqrstuv'' (SearchServiceProviders ''%'')
       empty_store
     = (Inl (HTTPException 404 ''No mentors found with the given expertise''), empty_store)"
    using t [of empty_store] e by simp
  ultimately show ?thesis by blast
qed

text \<open>
  C8. Frame. A request that fails leaves the store as it was, and so does every list, get
  and search request. A registration that succeeds appends exactly one row to the table of
  its own service: the rows that were there stay in place and unchanged, and the other two
  tables are untouched. No request removes or rewrites a stored row.
\<close>

theorem app_frame:
  "(case app email_str digest rnd req db of
      (Inl e, db') \<Rightarrow> db' = db
    | (Inr r, db') \<Rightarrow>
        (case req of
           RegisterUser name email phone preferred_language role password \<Rightarrow>
             appended (users db) (users db') \<and> mentors db' = mentors db \<and>
             service_providers db' = service_providers db
         | RegisterMentor name age location expertise experience \<Rightarrow>
             appended (mentors db) (mentors db') \<and> users db' = users db \<and>
             service_providers db' = service_providers db
         | RegisterServiceProvider name service_type experience pricing_model availability \<Rightarrow>
             appended (service_providers db) (service_providers db') \<and> users db' = users db \<and>
             mentors db' = mentors db
         | _ \<Rightarrow> db' = db))"
proof (cases req)
  case (RegisterUser name email phone preferred_language role password)
  then show ?thesis
    by (simp add: register_user_def add_commit_refresh_def appended_def Let_def
          split: option.splits sum.splits)
next
  case (FetchUsers skip limit)
  then show ?thesis
    by (simp add: fetch_users_def split: sum.splits)
next
  case (RegisterMentor name age location expertise experience)
  then show ?thesis
    by (simp add: register_mentor_def add_commit_refresh_def appended_def Let_def)
next
  case (FetchMentors skip limit)
  then show ?thesis
    by (simp add: fetch_mentors_def split: sum.splits)
next
  case (SearchMentors expertise)
  then show ?thesis
    by (simp add: search_mentors_by_expertise_def Let_def)
next
  case (RegisterServiceProvider name service_type experience pricing_model availability)
  then show ?thesis
    by (simp add: register_service_provider_def add_commit_refresh_def appended_def Let_def)
next
  case (FetchServiceProviders skip limit)
  then show ?thesis
    by (simp add: fetch_service_providers_def split: sum.splits)
next
  case (FetchServiceProvider provider_id)
  then show ?thesis
    by (simp add: fetch_service_provider_def split: option.splits)
next
  case (SearchServiceProviders service_type)
  then show ?thesis
    by (simp add: search_mentors_by_expertise_sp_def Let_def)
qed

theorem app_frame_witness:
  "snd (app Some toy_digest ''abcdefghijklmnopqrstuv''
          (RegisterMentor ''Eve'' 35 ''Goa'' ''Welding'' 9) sample_store)
     = sample_store\<lparr>mentors := \<lparr>rows = [bo,
          \<lparr>m_id = 2, m_name = ''Eve'', m_age = 35, m_location = ''Goa'',
            m_expertise = ''Welding'', m_experience = 9\<rparr>], next_id = 3\<rparr>\<rparr> \<and>
   appended (mentors sample_store)
     (mentors (snd (app Some toy_digest ''abcdefghijklmnopqrstuv''
                      (RegisterMentor ''Eve'' 35 ''Goa'' ''Welding'' 9) sample_store))) \<and>
   users (snd (app Some toy_digest ''abcdefghijklmnopqrstuv''
                 (RegisterMentor ''Eve'' 35 ''Goa'' ''Welding'' 9) sample_store))
     = users sample_store \<and>
   snd (app Some toy_digest ''abcdefghijklmnopqrstuv'' (FetchServiceProvider 7) sample_store)
     = sample_store"
proof -
  have a: "app Some toy_digest ''abcdefghijklmnopqrstuv''
             (RegisterMentor ''Eve'' 35 ''Goa'' ''Welding'' 9) sample_store
     = (Inr (RDict [(''id'', JInt 2), (''name'', JStr ''Eve''), (''age'', JInt 35),
                    (''location'', JStr ''Goa''), (''expertise'', JStr ''Welding''),
                    (''experience'', JInt 9)]),
        sample_store\<lparr>mentors := \<lparr>rows = [bo,
          \<lparr>m_id = 2, m_name = ''Eve'', m_age = 35, m_location = ''Goa'',
            m_expertise = ''Welding'', m_experience = 9\<rparr>], next_id = 3\<rparr>\<rparr>)"
    by (simp add: form_required_def register_mentor_def add_commit_refresh_def sample_store_def
          Let_def)
  have b: "app Some toy_digest ''abcdefghijklmnopqrstuv'' (FetchServiceProvider 7) sample_store
     = (Inl (HTTPException 404 ''Service provider not found''), sample_store)"
    by (simp add: fetch_service_provider_def first_def filter_by_def query_def
          sample_store_def cy_def)
  from app_frame [where email_str = Some and digest = toy_digest
      and rnd = "''abcdefghijklmnopqrstuv''" and db = sample_store
      and req = "RegisterMentor ''Eve'' 35 ''Goa'' ''Welding'' 9"]
    app_frame [where email_str = Some and digest = toy_digest
      and rnd = "''abcdefghijklmnopqrstuv''" and db = sample_store
      and req = "FetchServiceProvider 7"]
  show ?thesis unfolding a b by simp
qed

text \<open>
  C9. \<open>fetch_users\<close> returns the stored user rows themselves, password hashes included:
  the hashes of the rows it returns are the stored hashes of the page. In particular, after
  a successful registration into a table of fewer than 10 users the default listing contains
  the new row with the hash that \<open>hash_password\<close> produced, while the dict that the
  registration returned has no \<^verbatim>\<open>password_hash\<close> key.
\<close>

theorem fetch_users_includes_hash:
  "(0 \<le> skip \<and> 0 \<le> limit \<longrightarrow>
      (\<exists>us. fetch_users (Some skip) (Some limit) db = (Inr (RUsers us), db) \<and>
            is_page (nat skip) (nat limit) (rows (users db)) us \<and>
            is_page (nat skip) (nat limit) (map u_password_hash (rows (users db)))
              (map u_password_hash us))) \<and>
   ((\<forall>u \<in> set (rows (users db)). u_email u \<noteq> email) \<and> length password \<le> 72 \<and>
    length (rows (users db)) < 10 \<longrightarrow>
      (\<exists>d db' us u.
         register_user digest rnd name email phone preferred_language role password db
           = (Inr (RDict d), db') \<and>
         map_of d ''password_hash'' = None \<and>
         fetch_users None None db' = (Inr (RUsers us), db') \<and>
         u \<in> set us \<and> u_email u = email \<and>
         hash_password digest rnd password = Inr (u_password_hash u)))"
proof (intro conjI impI)
  assume "0 \<le> skip \<and> 0 \<le> limit"
  then have "fetch_users (Some skip) (Some limit) db
               = (Inr (RUsers (take (nat limit) (drop (nat skip) (rows (users db))))), db)"
    by (simp add: fetch_users_def offset_limit_all_def query_def)
  moreover have "is_page (nat skip) (nat limit) (rows (users db))
                   (take (nat limit) (drop (nat skip) (rows (users db))))"
    by (rule take_drop_is_page)
  moreover have "is_page (nat skip) (nat limit) (map u_password_hash (rows (users db)))
                   (map u_password_hash (take (nat limit) (drop (nat skip) (rows (users db)))))"
    unfolding take_map [symmetric] drop_map [symmetric] by (rule take_drop_is_page)
  ultimately show "\<exists>us. fetch_users (Some skip) (Some limit) db = (Inr (RUsers us), db) \<and>
            is_page (nat skip) (nat limit) (rows (users db)) us \<and>
            is_page (nat skip) (nat limit) (map u_password_hash (rows (users db)))
              (map u_password_hash us)"
    by blast
next
  assume a: "(\<forall>u \<in> set (rows (users db)). u_email u \<noteq> email) \<and> length password \<le> 72 \<and>
    length (rows (users db)) < 10"
  define h where "h = gensalt rnd @ digest password (gensalt rnd)"
  define u where "u = \<lparr>u_id = next_id (users db), u_name = name, u_email = email,
      u_phone = phone, u_preferred_language = preferred_language, u_role = role,
      u_password_hash = h\<rparr>"
  define db' where "db' = db\<lparr>users :=
      \<lparr>rows = rows (users db) @ [u], next_id = next_id (users db) + 1\<rparr>\<rparr>"
  define d where "d = [(''id'', JInt (next_id (users db))), (''name'', JStr name),
      (''email'', JStr email), (''phone'', JStr phone),
      (''preferred_language'', JStr preferred_language), (''role'', JStr role)]"
  have f: "first (filter_by (\<lambda>u. u_email u = email) (query (users db))) = None"
    using a by (simp add: first_filter_None query_def)
  have hp: "hash_password digest rnd password = Inr h"
    using a by (simp add: hash_password_def hashpw_def h_def)
  from f hp have reg:
    "register_user digest rnd name email phone preferred_language role password db
           = (Inr (RDict d), db')"
    by (simp add: register_user_def add_commit_refresh_def Let_def d_def db'_def u_def)
  have nd: "map_of d ''password_hash'' = None"
    by (simp add: d_def)
  have "length (rows (users db) @ [u]) \<le> 10"
    using a by simp
  then have "take 10 (rows (users db) @ [u]) = rows (users db) @ [u]"
    by (rule take_all)
  then have lst: "fetch_users None None db' = (Inr (RUsers (rows (users db) @ [u])), db')"
    by (simp add: fetch_users_def offset_limit_all_def query_def db'_def del: take_append)
  have u: "u \<in> set (rows (users db) @ [u])" "u_email u = email"
    "hash_password digest rnd password = Inr (u_password_hash u)"
    using hp by (simp_all add: u_def)
  from reg nd lst u show "\<exists>d db' us u.
         register_user digest rnd name email phone preferred_language role password db
           = (Inr (RDict d), db') \<and>
         map_of d ''password_hash'' = None \<and>
         fetch_users None None db' = (Inr (RUsers us), db') \<and>
         u \<in> set us \<and> u_email u = email \<and>
         hash_password digest rnd password = Inr (u_password_hash u)"
    by blast
qed

theorem fetch_users_includes_hash_witness:
  "(0::int) \<le> 0 \<and> (0::int) \<le> 10 \<and>
   (\<exists>us. fetch_users (Some 0) (Some 10) sample_store = (Inr (RUsers us), sample_store) \<and>
         is_page 0 10 [''$2b$hash''] (map u_password_hash us)) \<and>
   ''dee@example.org'' \<notin> set (map u_email (rows (users sample_store))) \<and>
   length ''secret'' \<le> 72 \<and> length (rows (users sample_store)) < 10 \<and>
   (\<exists>d db' us u.
      register_user toy_digest ''abcdefghijklmnopqrstuv'' ''Dee'' ''dee@example.org''
          ''555-0101'' ''en'' ''admin'' ''secret'' sample_store = (Inr (RDict d), db') \<and>
      map_of d ''password_hash'' = None \<and>
      fetch_users None None db' = (Inr (RUsers us), db') \<and>
      u \<in> set us \<and> u_email u = ''dee@example.org'' \<and>
      u_password_hash u = ''$2b$12$abcdefghijklmnopqrstuvterces'')"
proof -
  have z: "(0::int) \<le> 0 \<and> (0::int) \<le> 10" by simp
  have h: "(\<forall>u \<in> set (rows (users sample_store)). u_email u \<noteq> ''dee@example.org'') \<and>
           length ''secret'' \<le> 72 \<and> length (rows (users sample_store)) < 10"
    by code_simp
  have m: "map u_password_hash (rows (users sample_store)) = [''$2b$hash'']"
    by (simp add: sample_store_def ann_def)
  have g: "hash_password toy_digest ''abcdefghijklmnopqrstuv'' ''secret''
             = Inr ''$2b$12$abcdefghijklmnopqrstuvterces''"
    by (simp add: hash_password_def hashpw_def gensalt_def toy_digest_def)
  note t = fetch_users_includes_hash [where skip = 0 and limit = 10 and db = sample_store
      and email = "''dee@example.org''" and digest = toy_digest
      and rnd = "''abcdefghijklmnopqrstuv''"
      and name = "''Dee''" and phone = "''555-0101''" and preferred_language = "''en''"
      and role = "''admin''" and password = "''secret''"]
  from t z have "\<exists>us. fetch_users (Some 0) (Some 10) sample_store = (Inr (RUsers us), sample_store) \<and>
         is_page 0 10 [''$2b$hash''] (map u_password_hash us)"
    unfolding m by auto
  moreover from t h have "\<exists>d db' us u.
      register_user toy_digest ''abcdefghijklmnopqrstuv'' ''Dee'' ''dee@example.org''
          ''555-0101'' ''en'' ''admin'' ''secret'' sample_store = (Inr (RDict d), db') \<and>
      map_of d ''password_hash'' = None \<and>
      fetch_users None None db' = (Inr (RUsers us), db') \<and>
      u \<in> set us \<and> u_email u = ''dee@example.org'' \<and>
      u_password_hash u = ''$2b$12$abcdefghijklmnopqrstuvterces''"
    unfolding g by auto
  moreover have "''dee@example.org'' \<notin> set (map u_email (rows (users sample_store)))"
    using h by auto
  ultimately show ?thesis using z h by blast
qed

end
